theory Spec2Isabelle
  imports Complex_Main "HOL-Library.Sublist" "HOL-Library.AList"
begin

section \<open>JavaScript values and the runtime functions the client calls\<close>

text \<open>
  The values that travel through the four client functions (mint.js, retrieve.js,
  get-item.js, verify-owner.js). A JavaScript argument that may be absent is a
  \<open>json option\<close>, \<open>None\<close> standing for \<open>undefined\<close>. Numbers inside
  traits are integers, strings are lists of 8-bit code units, and an object is the
  list of its properties in enumeration order.
\<close>

datatype json =
    JNull
  | JBool bool
  | JNum int
  | JStr string
  | JArr "json list"
  | JObj "(string \<times> json) list"

text \<open>A JavaScript number as \<open>Number(x)\<close> yields it: only its sign and NaN-ness matter.\<close>

datatype jsnum = NaN | Fin rat | PosInf | NegInf

text \<open>Truthiness of a value (\<open>!x\<close> is its negation).\<close>

fun truthy :: "json \<Rightarrow> bool" where
  "truthy JNull = False"
| "truthy (JBool b) = b"
| "truthy (JNum n) = (n \<noteq> 0)"
| "truthy (JStr s) = (s \<noteq> [])"
| "truthy (JArr vs) = True"
| "truthy (JObj kvs) = True"

text \<open>\<open>typeof x === 'object'\<close>: true of null, arrays and objects.\<close>

fun typeof_object :: "json \<Rightarrow> bool" where
  "typeof_object JNull = True"
| "typeof_object (JArr vs) = True"
| "typeof_object (JObj kvs) = True"
| "typeof_object v = False"

text \<open>\<open>a || b\<close> where \<open>a\<close> may be undefined.\<close>

definition or_else :: "json option \<Rightarrow> json \<Rightarrow> json" where
  "or_else a b = (case a of None \<Rightarrow> b | Some v \<Rightarrow> if truthy v then v else b)"

subsection \<open>Strings\<close>

definition startsWith :: "string \<Rightarrow> string \<Rightarrow> bool" where
  "startsWith s p = prefix p s"

fun str_includes :: "string \<Rightarrow> string \<Rightarrow> bool" where
  "str_includes [] p = (p = [])"
| "str_includes (c # s) p = (prefix p (c # s) \<or> str_includes s p)"

definition lower_char :: "char \<Rightarrow> char" where
  "lower_char c =
     (let n = (of_char c :: nat) in
      if (65 \<le> n \<and> n \<le> 90) \<or> (192 \<le> n \<and> n \<le> 222 \<and> n \<noteq> 215) then char_of (n + 32) else c)"

text \<open>\<open>String.prototype.toLowerCase\<close> on 8-bit code units.\<close>

definition toLowerCase :: "string \<Rightarrow> string" where
  "toLowerCase s = map lower_char s"

definition is_space :: "char \<Rightarrow> bool" where
  "is_space c = ((of_char c :: nat) \<in> {9, 10, 11, 12, 13, 32, 160})"

text \<open>\<open>String.prototype.trim\<close> on 8-bit code units.\<close>

definition trim :: "string \<Rightarrow> string" where
  "trim s = rev (dropWhile is_space (rev (dropWhile is_space s)))"

text \<open>\<open>s.split(c)\<close>: the pieces between the separators.\<close>

fun split_on :: "char \<Rightarrow> string \<Rightarrow> string list" where
  "split_on c [] = [[]]"
| "split_on c (x # xs) =
     (if x = c then [] # split_on c xs
      else (case split_on c xs of [] \<Rightarrow> [[x]] | w # ws \<Rightarrow> (x # w) # ws))"

text \<open>\<open>xs[i]\<close> on an array: undefined out of range.\<close>

definition nth_opt :: "'a list \<Rightarrow> nat \<Rightarrow> 'a option" where
  "nth_opt xs i = (if i < length xs then Some (xs ! i) else None)"

subsection \<open>Decimal numerals\<close>

definition digit_char :: "nat \<Rightarrow> char" where
  "digit_char d = char_of (48 + d)"

definition is_digit :: "char \<Rightarrow> bool" where
  "is_digit c = (48 \<le> (of_char c :: nat) \<and> (of_char c :: nat) \<le> 57)"

definition digit_value :: "char \<Rightarrow> nat" where
  "digit_value c = of_char c - 48"

fun show_nat :: "nat \<Rightarrow> string" where
  "show_nat n = (if n < 10 then [digit_char n] else show_nat (n div 10) @ [digit_char (n mod 10)])"

declare show_nat.simps [simp del]

definition show_int :: "int \<Rightarrow> string" where
  "show_int i = (if i < 0 then CHR ''-'' # show_nat (nat (- i)) else show_nat (nat i))"

definition read_nat :: "string \<Rightarrow> nat" where
  "read_nat ds = foldl (\<lambda>a c. 10 * a + digit_value c) 0 ds"

subsection \<open>JSON.stringify\<close>

text \<open>
  The runtime's \<open>JSON.stringify\<close> on the values above, without indentation: strings
  are quoted with the escapes of QuoteJSONString, arrays and objects are written
  without white space.
\<close>

definition hex_digit :: "nat \<Rightarrow> char" where
  "hex_digit n = (if n < 10 then char_of (48 + n) else char_of (87 + n))"

definition escape_char :: "char \<Rightarrow> string" where
  "escape_char c =
     (let n = (of_char c :: nat) in
      if c = CHR 0x22 then [CHR 0x5C, CHR 0x22]
      else if c = CHR 0x5C then [CHR 0x5C, CHR 0x5C]
      else if n = 8 then [CHR 0x5C, CHR ''b'']
      else if n = 12 then [CHR 0x5C, CHR ''f'']
      else if n = 10 then [CHR 0x5C, CHR ''n'']
      else if n = 13 then [CHR 0x5C, CHR ''r'']
      else if n = 9 then [CHR 0x5C, CHR ''t'']
      else if n < 32 then [CHR 0x5C, CHR ''u'', CHR ''0'', CHR ''0'', hex_digit (n div 16), hex_digit (n mod 16)]
      else [c])"

definition quote :: "string \<Rightarrow> string" where
  "quote s = CHR 0x22 # concat (map escape_char s) @ [CHR 0x22]"

fun join_comma :: "string list \<Rightarrow> string" where
  "join_comma [] = []"
| "join_comma [x] = x"
| "join_comma (x # y # ys) = x @ CHR '','' # join_comma (y # ys)"

fun stringify :: "json \<Rightarrow> string" where
  "stringify JNull = ''null''"
| "stringify (JBool b) = (if b then ''true'' else ''false'')"
| "stringify (JNum i) = show_int i"
| "stringify (JStr s) = quote s"
| "stringify (JArr vs) = CHR ''['' # join_comma (map stringify vs) @ '']''"
| "stringify (JObj kvs) =
     CHR ''{'' # join_comma (map (\<lambda>kv. quote (fst kv) @ CHR '':'' # stringify (snd kv)) kvs) @ ''}''"

subsection \<open>JSON.parse\<close>

text \<open>
  The runtime's \<open>JSON.parse\<close> as a recursive-descent parser of the JSON grammar.
  Number literals are the integer ones (a fraction or exponent part is outside the
  values modelled here and is rejected), and a \<open>\u\<close> escape must name a code unit
  below 256. The fuel of the mutually recursive functions is spent one unit per call;
  \<open>JSON_parse\<close> supplies more fuel than the text has characters. A repeated property
  name keeps its first position and its last value.
\<close>

definition is_ws :: "char \<Rightarrow> bool" where
  "is_ws c = ((of_char c :: nat) \<in> {9, 10, 13, 32})"

definition skip_ws :: "string \<Rightarrow> string" where
  "skip_ws s = dropWhile is_ws s"

definition hex_value :: "char \<Rightarrow> nat option" where
  "hex_value c =
     (let n = (of_char c :: nat) in
      if 48 \<le> n \<and> n \<le> 57 then Some (n - 48)
      else if 97 \<le> n \<and> n \<le> 102 then Some (n - 87)
      else if 65 \<le> n \<and> n \<le> 70 then Some (n - 55)
      else None)"

definition hex4 :: "char \<Rightarrow> char \<Rightarrow> char \<Rightarrow> char \<Rightarrow> nat option" where
  "hex4 a b c d =
     (case (hex_value a, hex_value b, hex_value c, hex_value d) of
        (Some w, Some x, Some y, Some z) \<Rightarrow> Some (((w * 16 + x) * 16 + y) * 16 + z)
      | _ \<Rightarrow> None)"

definition unescape :: "char \<Rightarrow> char option" where
  "unescape e =
     (if e = CHR 0x22 then Some (CHR 0x22)
      else if e = CHR 0x5C then Some (CHR 0x5C)
      else if e = CHR ''/'' then Some (CHR ''/'')
      else if e = CHR ''b'' then Some (CHR 0x08)
      else if e = CHR ''f'' then Some (CHR 0x0C)
      else if e = CHR ''n'' then Some (CHR 0x0A)
      else if e = CHR ''r'' then Some (CHR 0x0D)
      else if e = CHR ''t'' then Some (CHR 0x09)
      else None)"

definition cons_fst :: "'a \<Rightarrow> ('a list \<times> 'b) option \<Rightarrow> ('a list \<times> 'b) option" where
  "cons_fst x r = (case r of None \<Rightarrow> None | Some (xs, t) \<Rightarrow> Some (x # xs, t))"

text \<open>The characters of a string literal after its opening quote, up to the closing one.\<close>

fun parse_chars :: "string \<Rightarrow> (string \<times> string) option" where
  "parse_chars [] = None"
| "parse_chars (c # r) =
     (if c = CHR 0x22 then Some ([], r)
      else if c = CHR 0x5C then
        (case r of
           [] \<Rightarrow> None
         | e # r1 \<Rightarrow>
             if e = CHR ''u'' then
               (case r1 of
                  h1 # h2 # h3 # h4 # r2 \<Rightarrow>
                    (case hex4 h1 h2 h3 h4 of
                       None \<Rightarrow> None
                     | Some n \<Rightarrow> if n < 256 then cons_fst (char_of n) (parse_chars r2) else None)
                | _ \<Rightarrow> None)
             else
               (case unescape e of
                  None \<Rightarrow> None
                | Some x \<Rightarrow> cons_fst x (parse_chars r1)))
      else if (of_char c :: nat) < 32 then None
      else cons_fst c (parse_chars r))"

definition parse_number :: "string \<Rightarrow> (int \<times> string) option" where
  "parse_number s =
     (let neg = (s \<noteq> [] \<and> hd s = CHR ''-'');
          t = (if neg then tl s else s)
      in case t of
           [] \<Rightarrow> None
         | c # r \<Rightarrow>
             if c = CHR ''0'' then Some (0, r)
             else if is_digit c then
               Some ((if neg then - int (read_nat (takeWhile is_digit t)) else int (read_nat (takeWhile is_digit t))),
                     dropWhile is_digit t)
             else None)"

definition obj_of_members :: "(string \<times> json) list \<Rightarrow> (string \<times> json) list" where
  "obj_of_members kvs = foldl (\<lambda>acc kv. AList.update (fst kv) (snd kv) acc) [] kvs"

fun parse_value :: "nat \<Rightarrow> string \<Rightarrow> (json \<times> string) option"
  and parse_elems :: "nat \<Rightarrow> string \<Rightarrow> (json list \<times> string) option"
  and parse_members :: "nat \<Rightarrow> string \<Rightarrow> ((string \<times> json) list \<times> string) option"
where
  "parse_value 0 s = None"
| "parse_value (Suc n) s =
     (let t = skip_ws s in
      if prefix ''null'' t then Some (JNull, drop 4 t)
      else if prefix ''true'' t then Some (JBool True, drop 4 t)
      else if prefix ''false'' t then Some (JBool False, drop 5 t)
      else
        (case t of
           [] \<Rightarrow> None
         | c # r \<Rightarrow>
             if c = CHR 0x22 then
               (case parse_chars r of None \<Rightarrow> None | Some (str, r1) \<Rightarrow> Some (JStr str, r1))
             else if c = CHR ''['' then
               (if prefix '']'' (skip_ws r) then Some (JArr [], drop 1 (skip_ws r))
                else (case parse_elems n r of None \<Rightarrow> None | Some (vs, r1) \<Rightarrow> Some (JArr vs, r1)))
             else if c = CHR ''{'' then
               (if prefix ''}'' (skip_ws r) then Some (JObj [], drop 1 (skip_ws r))
                else (case parse_members n r of
                        None \<Rightarrow> None
                      | Some (kvs, r1) \<Rightarrow> Some (JObj (obj_of_members kvs), r1)))
             else
               (case parse_number t of None \<Rightarrow> None | Some (i, r1) \<Rightarrow> Some (JNum i, r1))))"
| "parse_elems 0 s = None"
| "parse_elems (Suc n) s =
     (case parse_value n s of
        None \<Rightarrow> None
      | Some (v, r) \<Rightarrow>
          (let t = skip_ws r in
           if prefix '','' t then cons_fst v (parse_elems n (drop 1 t))
           else if prefix '']'' t then Some ([v], drop 1 t)
           else None))"
| "parse_members 0 s = None"
| "parse_members (Suc n) s =
     (let t = skip_ws s in
      if prefix [CHR 0x22] t then
        (case parse_chars (drop 1 t) of
           None \<Rightarrow> None
         | Some (k, r1) \<Rightarrow>
             (let t1 = skip_ws r1 in
              if prefix '':'' t1 then
                (case parse_value n (drop 1 t1) of
                   None \<Rightarrow> None
                 | Some (v, r2) \<Rightarrow>
                     (let t2 = skip_ws r2 in
                      if prefix '','' t2 then cons_fst (k, v) (parse_members n (drop 1 t2))
                      else if prefix ''}'' t2 then Some ([(k, v)], drop 1 t2)
                      else None))
              else None))
      else None)"

text \<open>\<open>JSON.parse(text)\<close>: the value, or \<open>None\<close> where the runtime raises SyntaxError.\<close>

definition JSON_parse :: "string \<Rightarrow> json option" where
  "JSON_parse s =
     (case parse_value (Suc (length s)) s of
        None \<Rightarrow> None
      | Some (v, r) \<Rightarrow> if skip_ws r = [] then Some v else None)"


section \<open>The world outside the client\<close>

text \<open>
  Errors. Each \<open>throw new Error(...)\<close> of the source is a constructor of its own;
  its message is noted beside it. \<open>Raised m\<close> is an error raised by a library call
  (ethers, fetch) with message \<open>m\<close>; \<open>JsTypeError\<close> and \<open>JsSyntaxError\<close> are the
  runtime's own.
\<close>

datatype error =
    InvalidDestinationAddress      \<comment> \<open>'Invalid destination address'\<close>
  | ImageUrlRequired               \<comment> \<open>'Image URL is required'\<close>
  | NotAnImage                     \<comment> \<open>'URL does not point to an image'\<close>
  | InvalidTraits                  \<comment> \<open>'Traits must be a valid object'\<close>
  | ContractAddressNotProvided     \<comment> \<open>'Contract address not provided and deployment.json not found'\<close>
  | InvalidContractAddress         \<comment> \<open>'Invalid contract address'\<close>
  | PrivateKeyNotProvided          \<comment> \<open>'Private key not provided and polygon_private_key.txt not found'\<close>
  | InvalidPrivateKeyFormat        \<comment> \<open>'Invalid private key format'\<close>
  | MintingFailed string           \<comment> \<open>'Minting failed. Tried mint, safeMint, and mintWithMetadata. Original error: ' + message\<close>
  | InvalidWalletAddress           \<comment> \<open>'Invalid wallet address'\<close>
  | TokenIdRequired                \<comment> \<open>'Token ID is required'\<close>
  | TokenIdNotANumber              \<comment> \<open>'Token ID must be a valid number'\<close>
  | TokenNotFound string           \<comment> \<open>'Token ID ' + tokenId + ' does not exist or has been burned'\<close>
  | RetrieveFailed string          \<comment> \<open>'Failed to retrieve tokens: ' + message\<close>
  | Raised string
  | JsTypeError
  | JsSyntaxError

definition not_an_image_message :: string where
  "not_an_image_message = ''URL does not point to an image''"

text \<open>
  A log of a receipt, given by what \<open>contract.interface.parseLog\<close> makes of it under
  the ABI of mint.js: it raises, returns null (no event of the ABI matches), or returns
  a description with the event's name and its \<open>args.tokenId\<close>.
\<close>

datatype log = Unparseable string | UnknownEvent | Event string "int option"

text \<open>
  \<open>parseLog\<close> reads \<open>log.topics\<close> before anything else, so on \<open>undefined\<close> (what
  \<open>Array.prototype.find\<close> returns when nothing matches) it raises TypeError.
\<close>

fun parseLog :: "log option \<Rightarrow> error + (string \<times> int option) option" where
  "parseLog None = Inl JsTypeError"
| "parseLog (Some (Unparseable m)) = Inl (Raised m)"
| "parseLog (Some UnknownEvent) = Inr None"
| "parseLog (Some (Event name tokenId)) = Inr (Some (name, tokenId))"

record receipt =
  r_blockNumber :: nat
  r_logs :: "log list option"

text \<open>A submitted transaction: its hash and what \<open>tx.wait()\<close> resolves to.\<close>

record tx =
  tx_hash :: string
  tx_wait :: "string + receipt"

text \<open>
  The contract behind the resolved address and endpoint, as ethers presents it: every
  method either raises (\<open>Inl\<close> the message) or returns. Within one client call no
  method is called twice with the same arguments, so a response function per method
  loses nothing.
\<close>

record contract =
  c_mint :: "string \<Rightarrow> string \<Rightarrow> string + tx"
  c_safeMint :: "string \<Rightarrow> string \<Rightarrow> string + tx"
  c_mintWithMetadata :: "string \<Rightarrow> string \<Rightarrow> string + tx"
  c_totalSupply :: "string + nat"
  c_balanceOf :: "string \<Rightarrow> string + nat"
  c_tokenOfOwnerByIndex :: "string \<Rightarrow> nat \<Rightarrow> string + nat"
  c_ownerOf :: "jsnum \<Rightarrow> string + string"
  c_tokenURI :: "jsnum \<Rightarrow> string + string"

text \<open>
  What the client finds around it: \<open>ethers.isAddress\<close>; the global \<open>fetch\<close>
  (\<open>None\<close> where it is undefined; a HEAD request raises or answers with its
  content-type header); deployment.json (\<open>None\<close> when reading or parsing it raises,
  else its contractAddress field); polygon_private_key.txt; the Wallet constructor
  (\<open>Some m\<close> when it raises); and \<open>Buffer.from(s, 'base64').toString()\<close>.
\<close>

record world =
  isAddress :: "string \<Rightarrow> bool"
  w_fetch :: "(string \<Rightarrow> string + string option) option"
  deployment_json :: "string option option"
  private_key_txt :: "string option"
  newWallet :: "string \<Rightarrow> string option"
  base64_decode :: "string \<Rightarrow> string"

record config =
  contractAddress :: "string option"
  privateKey :: "string option"
  rpcUrl :: "string option"

subsection \<open>Effects\<close>

text \<open>Every network call the client makes is recorded, in order.\<close>

datatype call =
    FetchHead string
  | CallMint string string
  | CallSafeMint string string
  | CallMintWithMetadata string string
  | WaitForReceipt string
  | CallTotalSupply
  | CallBalanceOf string
  | CallTokenOfOwnerByIndex string nat
  | CallOwnerOf jsnum
  | CallTokenURI jsnum

fun is_ledger_call :: "call \<Rightarrow> bool" where
  "is_ledger_call (FetchHead url) = False"
| "is_ledger_call c = True"

definition ledger_calls :: "call list \<Rightarrow> call list" where
  "ledger_calls t = filter is_ledger_call t"

type_synonym 'a io = "call list \<times> (error + 'a)"

definition io_ret :: "'a \<Rightarrow> 'a io" where
  "io_ret x = ([], Inr x)"

definition io_throw :: "error \<Rightarrow> 'a io" where
  "io_throw e = ([], Inl e)"

definition io_lift :: "error + 'a \<Rightarrow> 'a io" where
  "io_lift r = ([], r)"

definition io_bind :: "'a io \<Rightarrow> ('a \<Rightarrow> 'b io) \<Rightarrow> 'b io" where
  "io_bind m f =
     (case m of
        (t, Inl e) \<Rightarrow> (t, Inl e)
      | (t, Inr x) \<Rightarrow> (case f x of (t', r) \<Rightarrow> (t @ t', r)))"

definition io_call :: "call \<Rightarrow> string + 'a \<Rightarrow> 'a io" where
  "io_call c r = ([c], case r of Inl m \<Rightarrow> Inl (Raised m) | Inr x \<Rightarrow> Inr x)"

subsection \<open>Configuration (the same lines in all four functions)\<close>

definition falsy_str :: "string option \<Rightarrow> bool" where
  "falsy_str s = (case s of None \<Rightarrow> True | Some x \<Rightarrow> x = [])"

text \<open>\<open>!a || !ethers.isAddress(a)\<close>\<close>

definition bad_address :: "world \<Rightarrow> string option \<Rightarrow> bool" where
  "bad_address w a = (case a of None \<Rightarrow> True | Some x \<Rightarrow> x = [] \<or> \<not> isAddress w x)"

definition resolve_contract_address :: "world \<Rightarrow> config \<Rightarrow> error + string" where
  "resolve_contract_address w cfg =
     (case (if falsy_str (contractAddress cfg)
            then (case deployment_json w of
                    None \<Rightarrow> Inl ContractAddressNotProvided
                  | Some a \<Rightarrow> Inr a)
            else Inr (contractAddress cfg)) of
        Inl e \<Rightarrow> Inl e
      | Inr a \<Rightarrow> if bad_address w a then Inl InvalidContractAddress else Inr (the a))"

definition resolve_private_key :: "world \<Rightarrow> config \<Rightarrow> error + string" where
  "resolve_private_key w cfg =
     (case (if falsy_str (privateKey cfg)
            then (case private_key_txt w of
                    None \<Rightarrow> Inl PrivateKeyNotProvided
                  | Some content \<Rightarrow>
                      Inr (if startsWith (trim content) ''0x'' then trim content else ''0x'' @ trim content))
            else Inr (the (privateKey cfg))) of
        Inl e \<Rightarrow> Inl e
      | Inr k \<Rightarrow> if k = [] \<or> \<not> startsWith k ''0x'' then Inl InvalidPrivateKeyFormat else Inr k)"


section \<open>mint.js\<close>

text \<open>
  Lines 42-61, the HEAD probe of the image reference. Where \<open>fetch\<close> is undefined
  nothing is checked. An error raised inside the \<open>try\<close> (by \<open>fetch\<close>, or the
  'URL does not point to an image' of line 47) is swallowed when its message includes
  'fetch' or 'undefined' and rethrown otherwise; the shape of the reference is only
  ever the subject of a console warning.
\<close>

definition probe_image :: "world \<Rightarrow> string \<Rightarrow> unit io" where
  "probe_image w imageUrl =
     (case w_fetch w of
        None \<Rightarrow> io_ret ()
      | Some fetch \<Rightarrow>
          (case fetch imageUrl of
             Inl m \<Rightarrow>
               ([FetchHead imageUrl],
                if str_includes m ''fetch'' \<or> str_includes m ''undefined''
                then Inr () else Inl (Raised m))
           | Inr contentType \<Rightarrow>
               if (case contentType of None \<Rightarrow> True | Some ct \<Rightarrow> ct = [] \<or> \<not> startsWith ct ''image/'')
               then ([FetchHead imageUrl],
                     if str_includes not_an_image_message ''fetch''
                        \<or> str_includes not_an_image_message ''undefined''
                     then Inr () else Inl NotAnImage)
               else ([FetchHead imageUrl], Inr ())))"

text \<open>\<open>!imageUrl || typeof imageUrl !== 'string'\<close> (line 35)\<close>

fun bad_image_ref :: "json option \<Rightarrow> bool" where
  "bad_image_ref (Some (JStr url)) = (url = [])"
| "bad_image_ref v = True"

fun image_string :: "json option \<Rightarrow> string" where
  "image_string (Some (JStr url)) = url"
| "image_string v = []"

text \<open>\<open>!traits || typeof traits !== 'object'\<close> (line 63)\<close>

definition bad_traits :: "json option \<Rightarrow> bool" where
  "bad_traits traits = (case traits of None \<Rightarrow> True | Some t \<Rightarrow> \<not> truthy t \<or> \<not> typeof_object t)"

text \<open>Lines 30-65: the checks on the three arguments, in the order of the source.\<close>

definition mint_validate ::
  "world \<Rightarrow> string option \<Rightarrow> json option \<Rightarrow> json option \<Rightarrow> (string \<times> string \<times> json) io" where
  "mint_validate w destinationAddress imageUrl traits =
     (if bad_address w destinationAddress then io_throw InvalidDestinationAddress
      else if bad_image_ref imageUrl then io_throw ImageUrlRequired
      else
        io_bind (probe_image w (image_string imageUrl)) (\<lambda>u.
          if bad_traits traits then io_throw InvalidTraits
          else io_ret (the destinationAddress, image_string imageUrl, the traits)))"

text \<open>Lines 67-104: contract address, private key, wallet.\<close>

definition mint_configure :: "world \<Rightarrow> config \<Rightarrow> string io" where
  "mint_configure w cfg =
     io_bind (io_lift (resolve_contract_address w cfg)) (\<lambda>addr.
     io_bind (io_lift (resolve_private_key w cfg)) (\<lambda>key.
       (case newWallet w key of
          Some m \<Rightarrow> io_throw (Raised m)
        | None \<Rightarrow> io_ret addr)))"

text \<open>\<open>x.k\<close> on a value known not to be null.\<close>

fun member_of :: "json \<Rightarrow> string \<Rightarrow> json option" where
  "member_of (JObj kvs) k = map_of kvs k"
| "member_of v k = None"

text \<open>Lines 117-126: the metadata object and its JSON text.\<close>

definition build_metadata :: "string \<Rightarrow> json \<Rightarrow> json" where
  "build_metadata imageUrl traits =
     JObj [(''name'', or_else (member_of traits ''name'') (JStr ''Game Item'')),
           (''description'', or_else (member_of traits ''description'') (JStr ''A game item NFT'')),
           (''image'', JStr imageUrl),
           (''traits'', traits)]"

definition metadataJson :: "string \<Rightarrow> json \<Rightarrow> string" where
  "metadataJson imageUrl traits = stringify (build_metadata imageUrl traits)"

text \<open>
  Lines 131-150: the three entry points, each tried inside the \<open>catch\<close> of the one
  before. The error thrown at the end interpolates \<open>error.message\<close>, the error of
  the outermost \<open>catch\<close>.
\<close>

definition submit :: "contract \<Rightarrow> string \<Rightarrow> string \<Rightarrow> tx io" where
  "submit c destinationAddress json =
     (case c_mint c destinationAddress json of
        Inr t \<Rightarrow> ([CallMint destinationAddress json], Inr t)
      | Inl error \<Rightarrow>
          (case c_safeMint c destinationAddress json of
             Inr t \<Rightarrow> ([CallMint destinationAddress json, CallSafeMint destinationAddress json], Inr t)
           | Inl error2 \<Rightarrow>
               (case c_mintWithMetadata c destinationAddress json of
                  Inr t \<Rightarrow>
                    ([CallMint destinationAddress json, CallSafeMint destinationAddress json,
                      CallMintWithMetadata destinationAddress json], Inr t)
                | Inl error3 \<Rightarrow>
                    ([CallMint destinationAddress json, CallSafeMint destinationAddress json,
                      CallMintWithMetadata destinationAddress json], Inl (MintingFailed error)))))"

text \<open>The callback of \<open>receipt.logs.find\<close> (lines 161-167).\<close>

definition is_transfer :: "log \<Rightarrow> bool" where
  "is_transfer l =
     (case parseLog (Some l) of
        Inl e \<Rightarrow> False
      | Inr None \<Rightarrow> False
      | Inr (Some d) \<Rightarrow> fst d = ''Transfer'')"

text \<open>
  Lines 158-173. The outer \<open>parseLog\<close> is applied to whatever \<open>find\<close> returned and
  stands outside any \<open>try\<close>. The token id is given by the integer whose decimal
  string the source keeps; \<open>args.tokenId\<close> is tested for truthiness, which a bigint
  zero fails.
\<close>

definition token_id_from_events :: "receipt \<Rightarrow> error + int option" where
  "token_id_from_events r =
     (case r_logs r of
        None \<Rightarrow> Inr None
      | Some ls \<Rightarrow>
          (case parseLog (find is_transfer ls) of
             Inl e \<Rightarrow> Inl e
           | Inr None \<Rightarrow> Inr None
           | Inr (Some transferEvent) \<Rightarrow>
               (case snd transferEvent of
                  None \<Rightarrow> Inr None
                | Some tokenId \<Rightarrow> if tokenId \<noteq> 0 then Inr (Some tokenId) else Inr None)))"

text \<open>Lines 175-183.\<close>

definition token_id_fallback :: "contract \<Rightarrow> int option \<Rightarrow> int option io" where
  "token_id_fallback c tokenId =
     (case tokenId of
        Some t \<Rightarrow> io_ret (Some t)
      | None \<Rightarrow>
          (case c_totalSupply c of
             Inl m \<Rightarrow> ([CallTotalSupply], Inr None)
           | Inr totalSupply \<Rightarrow> ([CallTotalSupply], Inr (Some (int totalSupply - 1)))))"

record mint_result =
  m_success :: bool
  m_transactionHash :: string
  m_blockNumber :: nat
  m_tokenId :: "int option"
  m_destinationAddress :: string
  m_imageUrl :: string
  m_traits :: json

text \<open>Lines 152-193: after the submission.\<close>

definition confirm :: "contract \<Rightarrow> string \<Rightarrow> string \<Rightarrow> json \<Rightarrow> tx \<Rightarrow> mint_result io" where
  "confirm c destinationAddress imageUrl traits t =
     io_bind (io_call (WaitForReceipt (tx_hash t)) (tx_wait t)) (\<lambda>receipt.
     io_bind (io_lift (token_id_from_events receipt)) (\<lambda>tokenId.
     io_bind (token_id_fallback c tokenId) (\<lambda>tokenId'.
       io_ret \<lparr> m_success = True, m_transactionHash = tx_hash t,
                m_blockNumber = r_blockNumber receipt, m_tokenId = tokenId',
                m_destinationAddress = destinationAddress, m_imageUrl = imageUrl,
                m_traits = traits \<rparr>)))"

definition mint ::
  "world \<Rightarrow> contract \<Rightarrow> string option \<Rightarrow> json option \<Rightarrow> json option \<Rightarrow> config \<Rightarrow> mint_result io" where
  "mint w c destinationAddress imageUrl traits cfg =
     io_bind (mint_validate w destinationAddress imageUrl traits) (\<lambda>(dest, url, t).
     io_bind (mint_configure w cfg) (\<lambda>addr.
     io_bind (submit c dest (metadataJson url t)) (\<lambda>pending.
       confirm c dest url t pending)))"

section \<open>Metadata decoding (retrieve.js 123-147, get-item.js 80-100)\<close>

text \<open>The chain of \<open>startsWith\<close> tests, the same text in both files.\<close>

definition decode_metadata :: "world \<Rightarrow> string \<Rightarrow> error + json" where
  "decode_metadata w tokenURI =
     (if startsWith tokenURI ''data:application/json'' then
        (case nth_opt (split_on (CHR '','') tokenURI) 1 of
           None \<Rightarrow> Inl JsTypeError
         | Some base64Data \<Rightarrow>
             (case JSON_parse (base64_decode w base64Data) of
                None \<Rightarrow> Inl JsSyntaxError
              | Some metadata \<Rightarrow> Inr metadata))
      else if startsWith tokenURI ''{'' then
        (case JSON_parse tokenURI of
           None \<Rightarrow> Inl JsSyntaxError
         | Some metadata \<Rightarrow> Inr metadata)
      else if startsWith tokenURI ''http'' then Inr (JObj [(''uri'', JStr tokenURI)])
      else Inr (JObj [(''raw'', JStr tokenURI)]))"

text \<open>\<open>x.k\<close> on any value: null has no properties.\<close>

definition get_field :: "json \<Rightarrow> string \<Rightarrow> error + json option" where
  "get_field v k = (if v = JNull then Inl JsTypeError else Inr (member_of v k))"

text \<open>
  The four fields read off the decoded metadata; \<open>label\<close> is the text of
  \<open>${tokenId}\<close>. Only the first read can raise.
\<close>

definition common_fields :: "json \<Rightarrow> string \<Rightarrow> error + (json \<times> json \<times> json \<times> json)" where
  "common_fields metadata label =
     (case get_field metadata ''traits'' of
        Inl e \<Rightarrow> Inl e
      | Inr traits \<Rightarrow>
          Inr (or_else traits (JObj []),
               or_else (member_of metadata ''name'') (JStr (''Item #'' @ label)),
               or_else (member_of metadata ''description'') (JStr []),
               or_else (member_of metadata ''image'') (JStr [])))"

section \<open>retrieve.js\<close>

datatype item =
    Item nat json json json json json
  | ItemError nat error



text \<open>
  Lines 73-84, for \<open>i\<close> over \<open>0 .. balanceNumber - 1\<close>: a failed read empties
  \<open>tokenIds\<close> and leaves the loop. A token id is kept as the number whose decimal
  string the source pushes.
\<close>

fun indexed_ids :: "contract \<Rightarrow> string \<Rightarrow> nat list \<Rightarrow> nat list \<Rightarrow> call list \<times> nat list" where
  "indexed_ids c walletAddress [] tokenIds = ([], tokenIds)"
| "indexed_ids c walletAddress (i # rest) tokenIds =
     (case c_tokenOfOwnerByIndex c walletAddress i of
        Inl m \<Rightarrow> ([CallTokenOfOwnerByIndex walletAddress i], [])
      | Inr tokenId \<Rightarrow>
          (case indexed_ids c walletAddress rest (tokenIds @ [tokenId]) of
             (t, r) \<Rightarrow> (CallTokenOfOwnerByIndex walletAddress i # t, r)))"

text \<open>Lines 60-87. \<open>None\<close> is the \<open>return []\<close> of line 70.\<close>

definition method1 :: "contract \<Rightarrow> string \<Rightarrow> call list \<times> nat list option" where
  "method1 c walletAddress =
     (case c_balanceOf c walletAddress of
        Inl m \<Rightarrow> ([CallBalanceOf walletAddress], Some [])
      | Inr balanceNumber \<Rightarrow>
          if balanceNumber = 0 then ([CallBalanceOf walletAddress], None)
          else
            (case indexed_ids c walletAddress [0..<balanceNumber] [] of
               (t, tokenIds) \<Rightarrow> (CallBalanceOf walletAddress # t, Some tokenIds)))"

text \<open>Lines 98-108, for \<open>tokenId\<close> over \<open>1 .. total\<close>.\<close>

fun scan_ids :: "contract \<Rightarrow> string \<Rightarrow> nat list \<Rightarrow> nat list \<Rightarrow> call list \<times> nat list" where
  "scan_ids c walletAddress [] tokenIds = ([], tokenIds)"
| "scan_ids c walletAddress (tokenId # rest) tokenIds =
     (case scan_ids c walletAddress rest
             (case c_ownerOf c (Fin (of_nat tokenId)) of
                Inl m \<Rightarrow> tokenIds
              | Inr owner \<Rightarrow>
                  if toLowerCase owner = toLowerCase walletAddress then tokenIds @ [tokenId]
                  else tokenIds) of
        (t, r) \<Rightarrow> (CallOwnerOf (Fin (of_nat tokenId)) # t, r))"

text \<open>Lines 89-114.\<close>

definition method2 :: "contract \<Rightarrow> string \<Rightarrow> nat list io" where
  "method2 c walletAddress =
     (case c_totalSupply c of
        Inl m \<Rightarrow> ([CallTotalSupply], Inl (RetrieveFailed m))
      | Inr totalN \<Rightarrow>
          (case scan_ids c walletAddress [1..<Suc totalN] [] of
             (t, tokenIds) \<Rightarrow> (CallTotalSupply # t, Inr tokenIds)))"

text \<open>Lines 120-156, one token.\<close>

definition fetch_item :: "world \<Rightarrow> contract \<Rightarrow> nat \<Rightarrow> call list \<times> item" where
  "fetch_item w c tokenId =
     ([CallTokenURI (Fin (of_nat tokenId))],
      (case c_tokenURI c (Fin (of_nat tokenId)) of
         Inl m \<Rightarrow> ItemError tokenId (Raised m)
       | Inr tokenURI \<Rightarrow>
           (case decode_metadata w tokenURI of
              Inl e \<Rightarrow> ItemError tokenId e
            | Inr metadata \<Rightarrow>
                (case common_fields metadata (show_nat tokenId) of
                   Inl e \<Rightarrow> ItemError tokenId e
                 | Inr (traits, name, description, img) \<Rightarrow>
                     Item tokenId metadata traits name description img))))"

text \<open>Lines 117-157.\<close>

fun fetch_items :: "world \<Rightarrow> contract \<Rightarrow> nat list \<Rightarrow> call list \<times> item list" where
  "fetch_items w c [] = ([], [])"
| "fetch_items w c (tokenId # rest) =
     (case fetch_item w c tokenId of
        (t, it) \<Rightarrow> (case fetch_items w c rest of (t', its) \<Rightarrow> (t @ t', it # its)))"

text \<open>Lines 116-160: the items of the token ids found.\<close>

definition items_of :: "world \<Rightarrow> contract \<Rightarrow> nat list \<Rightarrow> item list io" where
  "items_of w c tokenIds = (case fetch_items w c tokenIds of (t, items) \<Rightarrow> (t, Inr items))"

text \<open>What the scan strategy alone yields: lines 89-114 followed by lines 116-160.\<close>

definition scan_result :: "world \<Rightarrow> contract \<Rightarrow> string \<Rightarrow> item list io" where
  "scan_result w c walletAddress = io_bind (method2 c walletAddress) (items_of w c)"

definition retrieve :: "world \<Rightarrow> contract \<Rightarrow> string option \<Rightarrow> config \<Rightarrow> item list io" where
  "retrieve w c walletAddress cfg =
     (if bad_address w walletAddress then io_throw InvalidWalletAddress
      else
        io_bind (io_lift (resolve_contract_address w cfg)) (\<lambda>addr.
          (case method1 c (the walletAddress) of
             (t, None) \<Rightarrow> (t, Inr [])
           | (t, Some tokenIds) \<Rightarrow>
               io_bind (t, Inr tokenIds) (\<lambda>tokenIds.
                 if tokenIds = [] then scan_result w c (the walletAddress)
                 else items_of w c tokenIds))))"

section \<open>get-item.js and verify-owner.js\<close>

text \<open>
  The \<open>tokenId\<close> argument: null, undefined, or a value given by the two conversions
  the code applies to it, its text \<open>${tokenId}\<close> and \<open>Number(tokenId)\<close>.
\<close>

datatype tokenid = TNull | TUndefined | TValue string jsnum

fun below_zero :: "jsnum \<Rightarrow> bool" where
  "below_zero NaN = False"
| "below_zero (Fin r) = (r < 0)"
| "below_zero PosInf = False"
| "below_zero NegInf = True"

text \<open>get-item.js 20-28, verify-owner.js 28-35.\<close>

fun validate_token_id :: "tokenid \<Rightarrow> error + (string \<times> jsnum)" where
  "validate_token_id TNull = Inl TokenIdRequired"
| "validate_token_id TUndefined = Inl TokenIdRequired"
| "validate_token_id (TValue label tokenIdNumber) =
     (if tokenIdNumber = NaN \<or> below_zero tokenIdNumber then Inl TokenIdNotANumber
      else Inr (label, tokenIdNumber))"

text \<open>get-item.js 62-68, verify-owner.js 69-75.\<close>

definition owner_lookup :: "contract \<Rightarrow> string \<Rightarrow> jsnum \<Rightarrow> string io" where
  "owner_lookup c label tokenIdNumber =
     (case c_ownerOf c tokenIdNumber of
        Inl m \<Rightarrow> ([CallOwnerOf tokenIdNumber], Inl (TokenNotFound label))
      | Inr owner \<Rightarrow> ([CallOwnerOf tokenIdNumber], Inr owner))"

record token_view =
  v_tokenId :: jsnum
  v_owner :: string
  v_metadata :: "json option"
  v_traits :: json
  v_name :: json
  v_description :: json
  v_image :: json
  v_contractAddress :: string

text \<open>get-item.js 70-105: a failure anywhere leaves the initial values and a null metadata.\<close>

definition item_metadata_fields ::
  "world \<Rightarrow> contract \<Rightarrow> string \<Rightarrow> jsnum \<Rightarrow> json option \<times> json \<times> json \<times> json \<times> json" where
  "item_metadata_fields w c label tokenIdNumber =
     (case c_tokenURI c tokenIdNumber of
        Inl m \<Rightarrow> (None, JObj [], JStr [], JStr [], JStr [])
      | Inr tokenURI \<Rightarrow>
          (case decode_metadata w tokenURI of
             Inl e \<Rightarrow> (None, JObj [], JStr [], JStr [], JStr [])
           | Inr metadata \<Rightarrow>
               (case common_fields metadata label of
                  Inl e \<Rightarrow> (None, JObj [], JStr [], JStr [], JStr [])
                | Inr (traits, name, description, img) \<Rightarrow>
                    (Some metadata, traits, name, description, img))))"

definition getItem :: "world \<Rightarrow> contract \<Rightarrow> tokenid \<Rightarrow> config \<Rightarrow> token_view io" where
  "getItem w c tokenId cfg =
     io_bind (io_lift (validate_token_id tokenId)) (\<lambda>(label, tokenIdNumber).
     io_bind (io_lift (resolve_contract_address w cfg)) (\<lambda>addr.
     io_bind (owner_lookup c label tokenIdNumber) (\<lambda>owner.
       (case item_metadata_fields w c label tokenIdNumber of
          (metadata, traits, name, description, img) \<Rightarrow>
            ([CallTokenURI tokenIdNumber],
             Inr \<lparr> v_tokenId = tokenIdNumber, v_owner = owner, v_metadata = metadata,
                    v_traits = traits, v_name = name, v_description = description,
                    v_image = img, v_contractAddress = addr \<rparr>)))))"

record verification =
  vo_isOwner :: bool
  vo_walletAddress :: string
  vo_actualOwner :: string
  vo_tokenId :: jsnum
  vo_contractAddress :: string

definition verifyOwner ::
  "world \<Rightarrow> contract \<Rightarrow> string option \<Rightarrow> tokenid \<Rightarrow> config \<Rightarrow> verification io" where
  "verifyOwner w c wallet tid cfg =
     (if bad_address w wallet then io_throw InvalidWalletAddress
      else
        io_bind (io_lift (validate_token_id tid)) (\<lambda>(label, tokenIdNumber).
        io_bind (io_lift (resolve_contract_address w cfg)) (\<lambda>addr.
        io_bind (owner_lookup c label tokenIdNumber) (\<lambda>owner.
          io_ret \<lparr> vo_isOwner = (toLowerCase (the wallet) = toLowerCase owner),
                   vo_walletAddress = the wallet, vo_actualOwner = owner,
                   vo_tokenId = tokenIdNumber, vo_contractAddress = addr \<rparr>))))"


section \<open>A concrete world and contract\<close>

text \<open>
  Used to run the definitions: a deployment like the repository's GameItem contract
  (no enumerable extension, token ids from 1) with five tokens issued, tokens 2 and 4
  held by \<open>ex_owner\<close>, tokens 1 and 5 by \<open>ex_other\<close>, token 3 burned. The runtime
  has no \<open>fetch\<close>; no token URI is a data URI, so base64 decoding is never called and
  is left the identity.
\<close>

definition ex_owner :: string where
  "ex_owner = ''0x0ad71CEf14201B7fC7de53Ff2b4d40B9a96C2813''"

definition ex_other :: string where
  "ex_other = ''0x742d35Cc6634C0532925a3b844Bc9e7595f0bEb0''"

definition ex_contract_address :: string where
  "ex_contract_address = ''0x5FbDB2315678afecb367f032d93F642f64180aa3''"

definition ex_world :: world where
  "ex_world =
     \<lparr> isAddress = (\<lambda>s. startsWith s ''0x'' \<and> length s = 42),
       w_fetch = None,
       deployment_json = Some (Some ex_contract_address),
       private_key_txt = Some ''ab12cd34 '',
       newWallet = (\<lambda>k. None),
       base64_decode = (\<lambda>s. s) \<rparr>"

definition ex_config :: config where
  "ex_config = \<lparr> contractAddress = None, privateKey = None, rpcUrl = None \<rparr>"

definition ex_receipt :: receipt where
  "ex_receipt = \<lparr> r_blockNumber = 100, r_logs = Some [UnknownEvent, Event ''Transfer'' (Some 6)] \<rparr>"

definition ex_tx :: tx where
  "ex_tx = \<lparr> tx_hash = ''0xabc'', tx_wait = Inr ex_receipt \<rparr>"

definition ex_contract :: contract where
  "ex_contract =
     \<lparr> c_mint = (\<lambda>to md. Inr ex_tx),
       c_safeMint = (\<lambda>to md. Inr ex_tx),
       c_mintWithMetadata = (\<lambda>to md. Inr ex_tx),
       c_totalSupply = Inr 5,
       c_balanceOf = (\<lambda>a. if toLowerCase a = toLowerCase ex_owner then Inr 2
                         else if toLowerCase a = toLowerCase ex_other then Inr 2 else Inr 0),
       c_tokenOfOwnerByIndex = (\<lambda>a i. Inl ''tokenOfOwnerByIndex: execution reverted''),
       c_ownerOf = (\<lambda>n. if n = Fin 2 \<or> n = Fin 4 then Inr ex_owner
                         else if n = Fin 1 \<or> n = Fin 5 then Inr ex_other
                         else Inl ''ownerOf: nonexistent token''),
       c_tokenURI = (\<lambda>n. if n = Fin 2 then Inr ''not-json-not-uri''
                          else if n = Fin 4 then Inr ''https://example.com/4.json''
                          else Inl ''tokenURI: nonexistent token'') \<rparr>"

definition ex_traits :: json where
  "ex_traits = JObj [(''name'', JStr ''Sword''), (''attack'', JNum 100)]"

text \<open>The same world on a runtime with \<open>fetch\<close>.\<close>

definition ex_world_fetch :: world where
  "ex_world_fetch =
     ex_world\<lparr>w_fetch := Some (\<lambda>url. if startsWith url ''https://example.com/''
                                       then Inr (Some ''image/png'') else Inl ''fetch failed'')\<rparr>"

section \<open>Predicates of the statements\<close>

text \<open>
  The token ids the specification says are refused: missing (null or undefined), not
  numerically convertible, or negative.
\<close>

definition rejected_token_id :: "tokenid \<Rightarrow> bool" where
  "rejected_token_id tid =
     (case tid of
        TNull \<Rightarrow> True
      | TUndefined \<Rightarrow> True
      | TValue label n \<Rightarrow> n = NaN \<or> below_zero n)"


text \<open>
  What may follow a value inside a text that \<open>stringify\<close> wrote: nothing, a comma or
  a closing bracket.
\<close>

definition follows :: "string \<Rightarrow> bool" where
  "follows rest = (rest = [] \<or> hd rest = CHR '','' \<or> hd rest = CHR '']'' \<or> hd rest = CHR ''}'')"

text \<open>The metadata texts handed to the contract's entry points in a trace.\<close>

fun call_metadata :: "call \<Rightarrow> string option" where
  "call_metadata (CallMint dest md) = Some md"
| "call_metadata (CallSafeMint dest md) = Some md"
| "call_metadata (CallMintWithMetadata dest md) = Some md"
| "call_metadata c = None"

definition submitted_metadata :: "call list \<Rightarrow> string list" where
  "submitted_metadata t = List.map_filter call_metadata t"


section \<open>Sequencing lemmas\<close>

lemma io_bind_Inl [simp]: "io_bind (t, Inl e) f = (t, Inl e)"
  by (simp add: io_bind_def)

lemma io_bind_Inr [simp]: "io_bind (t, Inr x) f = (t @ fst (f x), snd (f x))"
  by (simp add: io_bind_def split: prod.split)

lemma io_bind_ret [simp]: "io_bind (io_ret x) f = f x"
  by (simp add: io_ret_def)

lemma io_bind_throw [simp]: "io_bind (io_throw e) f = io_throw e"
  by (simp add: io_throw_def)

lemma io_bind_lift_Inr [simp]: "io_bind (io_lift (Inr x)) f = f x"
  by (simp add: io_lift_def)

lemma io_bind_lift_Inl [simp]: "io_bind (io_lift (Inl e)) f = io_throw e"
  by (simp add: io_lift_def io_throw_def)

section \<open>The order of the mint entry points\<close>

text \<open>
  C1, as the code has it. Once validation and configuration have passed, the entry
  points are called in the order mint, safeMint, mintWithMetadata, each only after the
  ones before it raised; the transaction of the first that does not raise is the one
  confirmed; and when all three raise, mint fails with \<open>MintingFailed\<close> carrying the
  message of the first error, the one raised by the \<open>mint\<close> entry point.
\<close>

theorem mint_entry_point_order:
  assumes V: "mint_validate w destinationAddress imageUrl traits = (t0, Inr (dest, url, t))"
    and C: "mint_configure w cfg = (t1, Inr addr)"
    and J: "J = metadataJson url t"
  shows "(c_mint c dest J = Inr p \<longrightarrow>
            mint w c destinationAddress imageUrl traits cfg
            = io_bind (t0 @ t1 @ [CallMint dest J], Inr p) (confirm c dest url t))
       \<and> (c_mint c dest J = Inl e1 \<and> c_safeMint c dest J = Inr p \<longrightarrow>
            mint w c destinationAddress imageUrl traits cfg
            = io_bind (t0 @ t1 @ [CallMint dest J, CallSafeMint dest J], Inr p) (confirm c dest url t))
       \<and> (c_mint c dest J = Inl e1 \<and> c_safeMint c dest J = Inl e2
            \<and> c_mintWithMetadata c dest J = Inr p \<longrightarrow>
            mint w c destinationAddress imageUrl traits cfg
            = io_bind (t0 @ t1 @ [CallMint dest J, CallSafeMint dest J, CallMintWithMetadata dest J], Inr p)
                (confirm c dest url t))
       \<and> (c_mint c dest J = Inl e1 \<and> c_safeMint c dest J = Inl e2
            \<and> c_mintWithMetadata c dest J = Inl e3 \<longrightarrow>
            mint w c destinationAddress imageUrl traits cfg
            = (t0 @ t1 @ [CallMint dest J, CallSafeMint dest J, CallMintWithMetadata dest J],
               Inl (MintingFailed e1)))"
  unfolding mint_def V C J by (simp add: submit_def)

text \<open>The theorem at work: \<open>mint\<close> raises, \<open>safeMint\<close> accepts and is the one used.\<close>

theorem mint_entry_point_order_witness:
  "mint ex_world (ex_contract\<lparr>c_mint := (\<lambda>to md. Inl ''mint: no such method'')\<rparr>)
        (Some ex_owner) (Some (JStr ''https://example.com/item.png'')) (Some ex_traits) ex_config
   = ([CallMint ex_owner (metadataJson ''https://example.com/item.png'' ex_traits),
       CallSafeMint ex_owner (metadataJson ''https://example.com/item.png'' ex_traits),
       WaitForReceipt ''0xabc''],
      Inr \<lparr> m_success = True, m_transactionHash = ''0xabc'', m_blockNumber = 100,
             m_tokenId = Some 6, m_destinationAddress = ex_owner,
             m_imageUrl = ''https://example.com/item.png'', m_traits = ex_traits \<rparr>)"
proof -
  have V: "mint_validate ex_world (Some ex_owner) (Some (JStr ''https://example.com/item.png''))
             (Some ex_traits)
           = ([], Inr (ex_owner, ''https://example.com/item.png'', ex_traits))"
    by code_simp
  have C: "mint_configure ex_world ex_config = ([], Inr ex_contract_address)"
    by code_simp
  have K: "io_bind ([CallMint ex_owner (metadataJson ''https://example.com/item.png'' ex_traits),
                     CallSafeMint ex_owner (metadataJson ''https://example.com/item.png'' ex_traits)],
                    Inr ex_tx)
             (confirm (ex_contract\<lparr>c_mint := (\<lambda>to md. Inl ''mint: no such method'')\<rparr>)
                ex_owner ''https://example.com/item.png'' ex_traits)
           = ([CallMint ex_owner (metadataJson ''https://example.com/item.png'' ex_traits),
               CallSafeMint ex_owner (metadataJson ''https://example.com/item.png'' ex_traits),
               WaitForReceipt ''0xabc''],
              Inr \<lparr> m_success = True, m_transactionHash = ''0xabc'', m_blockNumber = 100,
                     m_tokenId = Some 6, m_destinationAddress = ex_owner,
                     m_imageUrl = ''https://example.com/item.png'', m_traits = ex_traits \<rparr>)"
    by code_simp
  show ?thesis
    using mint_entry_point_order [OF V C refl,
        of "ex_contract\<lparr>c_mint := (\<lambda>to md. Inl ''mint: no such method'')\<rparr>"
           ex_tx "''mint: no such method''"] K
    by (simp add: ex_contract_def)
qed

text \<open>
  C1 as the specification states it fails: with three different errors, the error
  mint fails with carries the message of the first candidate, not of the last.
\<close>

theorem mint_failure_carries_first_error:
  "snd (mint ex_world
          (ex_contract\<lparr>c_mint := (\<lambda>to md. Inl ''mint rejected''),
                       c_safeMint := (\<lambda>to md. Inl ''safeMint rejected''),
                       c_mintWithMetadata := (\<lambda>to md. Inl ''mintWithMetadata rejected'')\<rparr>)
          (Some ex_owner) (Some (JStr ''https://example.com/item.png'')) (Some ex_traits) ex_config)
     = Inl (MintingFailed ''mint rejected'')
   \<and> snd (mint ex_world
          (ex_contract\<lparr>c_mint := (\<lambda>to md. Inl ''mint rejected''),
                       c_safeMint := (\<lambda>to md. Inl ''safeMint rejected''),
                       c_mintWithMetadata := (\<lambda>to md. Inl ''mintWithMetadata rejected'')\<rparr>)
          (Some ex_owner) (Some (JStr ''https://example.com/item.png'')) (Some ex_traits) ex_config)
     \<noteq> Inl (MintingFailed ''mintWithMetadata rejected'')"
  by code_simp

section \<open>Validation before any ledger call\<close>

lemma ledger_calls_probe: "ledger_calls (fst (probe_image w url)) = []"
  by (simp add: probe_image_def ledger_calls_def io_ret_def split: option.split sum.split)

lemma not_an_image_rethrown:
  "\<not> str_includes not_an_image_message ''fetch''" "\<not> str_includes not_an_image_message ''undefined''"
  by code_simp+

text \<open>
  C8, as the code has it. mint fails before any ledger call when the destination
  address is missing, empty or not an address (\<open>InvalidDestinationAddress\<close>); when the
  image reference is missing, empty or not a string (\<open>ImageUrlRequired\<close>); when the
  HEAD probe of the reference raises an error whose message includes neither 'fetch' nor
  'undefined' (that error), or answers without an \<open>image/\<close> content type
  (\<open>NotAnImage\<close>); and when traits is missing, falsy or not an object
  (\<open>InvalidTraits\<close>). The only call made before these failures is the HEAD request,
  which is not a ledger call. The shape of the image reference is not checked: where
  \<open>fetch\<close> is undefined, every non-empty string passes validation.
\<close>

theorem mint_validation_failures:
  "(bad_address w d \<longrightarrow> mint w c d i t cfg = ([], Inl InvalidDestinationAddress))
 \<and> (\<not> bad_address w d \<and> bad_image_ref i \<longrightarrow> mint w c d i t cfg = ([], Inl ImageUrlRequired))
 \<and> (\<not> bad_address w d \<and> \<not> bad_image_ref i \<and> w_fetch w = Some f \<and> f (image_string i) = Inl m
       \<and> \<not> str_includes m ''fetch'' \<and> \<not> str_includes m ''undefined'' \<longrightarrow>
       mint w c d i t cfg = ([FetchHead (image_string i)], Inl (Raised m)))
 \<and> (\<not> bad_address w d \<and> \<not> bad_image_ref i \<and> w_fetch w = Some f \<and> f (image_string i) = Inr ct
       \<and> (ct = None \<or> ct = Some [] \<or> \<not> startsWith (the ct) ''image/'') \<longrightarrow>
       mint w c d i t cfg = ([FetchHead (image_string i)], Inl NotAnImage))
 \<and> (\<not> bad_address w d \<and> \<not> bad_image_ref i \<and> probe_image w (image_string i) = (tp, Inr ())
       \<and> bad_traits t \<longrightarrow>
       mint w c d i t cfg = (tp, Inl InvalidTraits) \<and> ledger_calls tp = [])
 \<and> (w_fetch w = None \<and> \<not> bad_address w d \<and> \<not> bad_image_ref i \<and> \<not> bad_traits t \<longrightarrow>
       mint_validate w d i t = ([], Inr (the d, image_string i, the t)))
 \<and> ledger_calls [FetchHead (image_string i)] = []"
proof (intro conjI impI)
  assume "bad_address w d"
  then show "mint w c d i t cfg = ([], Inl InvalidDestinationAddress)"
    by (simp add: mint_def mint_validate_def io_throw_def)
next
  assume "\<not> bad_address w d \<and> bad_image_ref i"
  then show "mint w c d i t cfg = ([], Inl ImageUrlRequired)"
    by (simp add: mint_def mint_validate_def io_throw_def)
next
  assume "\<not> bad_address w d \<and> \<not> bad_image_ref i \<and> w_fetch w = Some f \<and> f (image_string i) = Inl m
       \<and> \<not> str_includes m ''fetch'' \<and> \<not> str_includes m ''undefined''"
  then show "mint w c d i t cfg = ([FetchHead (image_string i)], Inl (Raised m))"
    by (simp add: mint_def mint_validate_def probe_image_def)
next
  assume a: "\<not> bad_address w d \<and> \<not> bad_image_ref i \<and> w_fetch w = Some f \<and> f (image_string i) = Inr ct
       \<and> (ct = None \<or> ct = Some [] \<or> \<not> startsWith (the ct) ''image/'')"
  then have "probe_image w (image_string i) = ([FetchHead (image_string i)], Inl NotAnImage)"
    by (cases ct) (auto simp: probe_image_def not_an_image_rethrown)
  with a show "mint w c d i t cfg = ([FetchHead (image_string i)], Inl NotAnImage)"
    by (simp add: mint_def mint_validate_def)
next
  assume a: "\<not> bad_address w d \<and> \<not> bad_image_ref i
      \<and> probe_image w (image_string i) = (tp, Inr ()) \<and> bad_traits t"
  then show "mint w c d i t cfg = (tp, Inl InvalidTraits)"
    by (simp add: mint_def mint_validate_def io_throw_def)
  from a ledger_calls_probe [of w "image_string i"] show "ledger_calls tp = []"
    by simp
next
  assume "w_fetch w = None \<and> \<not> bad_address w d \<and> \<not> bad_image_ref i \<and> \<not> bad_traits t"
  then show "mint_validate w d i t = ([], Inr (the d, image_string i, the t))"
    by (simp add: mint_validate_def probe_image_def io_ret_def)
next
  show "ledger_calls [FetchHead (image_string i)] = []"
    by (simp add: ledger_calls_def)
qed

text \<open>The theorem at work: traits given as a string, on a runtime with \<open>fetch\<close>.\<close>

theorem mint_validation_failures_witness:
  "mint ex_world_fetch ex_contract (Some ex_owner) (Some (JStr ''https://example.com/item.png''))
     (Some (JStr ''attack=100'')) ex_config
   = ([FetchHead ''https://example.com/item.png''], Inl InvalidTraits)
   \<and> ledger_calls [FetchHead ''https://example.com/item.png''] = []"
proof -
  have 1: "\<not> bad_address ex_world_fetch (Some ex_owner)" by code_simp
  have 2: "\<not> bad_image_ref (Some (JStr ''https://example.com/item.png''))" by simp
  have 3: "probe_image ex_world_fetch (image_string (Some (JStr ''https://example.com/item.png'')))
           = ([FetchHead ''https://example.com/item.png''], Inr ())"
    by code_simp
  have 4: "bad_traits (Some (JStr ''attack=100''))" by code_simp
  show ?thesis
    using mint_validation_failures [where w = ex_world_fetch and d = "Some ex_owner"
        and c = ex_contract and i = "Some (JStr ''https://example.com/item.png'')"
        and t = "Some (JStr ''attack=100'')" and cfg = ex_config
        and tp = "[FetchHead ''https://example.com/item.png'']"] 1 2 3 4
    by simp
qed

text \<open>
  C8 as the specification states it fails: on a runtime without \<open>fetch\<close>, an image
  reference that is neither a URL nor a data URI is accepted, and the mint is submitted
  to the ledger and succeeds.
\<close>

theorem mint_accepts_shapeless_image_reference:
  "mint ex_world ex_contract (Some ex_owner) (Some (JStr ''not a url'')) (Some ex_traits) ex_config
   = ([CallMint ex_owner (metadataJson ''not a url'' ex_traits), WaitForReceipt ''0xabc''],
      Inr \<lparr> m_success = True, m_transactionHash = ''0xabc'', m_blockNumber = 100,
             m_tokenId = Some 6, m_destinationAddress = ex_owner,
             m_imageUrl = ''not a url'', m_traits = ex_traits \<rparr>)"
  by code_simp

section \<open>The token id of a confirmed mint\<close>

text \<open>
  What lines 158-173 make of a receipt: without a logs array the token id stays null;
  with one, a missing Transfer event raises TypeError, and the first Transfer event
  gives its token id unless that is missing or zero.
\<close>

lemma token_id_from_events_cases:
  "(r_logs r = None \<longrightarrow> token_id_from_events r = Inr None)
 \<and> (r_logs r = Some ls \<and> find is_transfer ls = None \<longrightarrow> token_id_from_events r = Inl JsTypeError)
 \<and> (r_logs r = Some ls \<and> find is_transfer ls = Some l \<longrightarrow>
      (\<exists>tokenId. l = Event ''Transfer'' tokenId
         \<and> token_id_from_events r
             = Inr (case tokenId of None \<Rightarrow> None | Some n \<Rightarrow> if n \<noteq> 0 then Some n else None)))"
proof (intro conjI impI)
  assume "r_logs r = None"
  then show "token_id_from_events r = Inr None"
    by (simp add: token_id_from_events_def)
next
  assume "r_logs r = Some ls \<and> find is_transfer ls = None"
  then show "token_id_from_events r = Inl JsTypeError"
    by (simp add: token_id_from_events_def)
next
  assume a: "r_logs r = Some ls \<and> find is_transfer ls = Some l"
  then have "is_transfer l"
    by (auto simp: find_Some_iff)
  then obtain tokenId where l: "l = Event ''Transfer'' tokenId"
    by (cases l) (auto simp: is_transfer_def)
  with a show "\<exists>tokenId. l = Event ''Transfer'' tokenId
         \<and> token_id_from_events r
             = Inr (case tokenId of None \<Rightarrow> None | Some n \<Rightarrow> if n \<noteq> 0 then Some n else None)"
    by (auto simp: token_id_from_events_def split: option.split)
qed

text \<open>
  C7 at a confirmed receipt whose logs hold no Transfer event: \<open>find\<close> returns
  undefined, the \<open>parseLog\<close> of line 160 raises TypeError outside any \<open>try\<close>, and
  mint rejects with it after the transaction was confirmed; the total-supply fallback of
  lines 175-183 is never reached.
\<close>

theorem mint_without_transfer_event_raises:
  "mint ex_world
     (ex_contract\<lparr>c_mint := (\<lambda>to md. Inr (ex_tx\<lparr>tx_wait := Inr (ex_receipt\<lparr>r_logs := Some [UnknownEvent]\<rparr>)\<rparr>))\<rparr>)
     (Some ex_owner) (Some (JStr ''https://example.com/item.png'')) (Some ex_traits) ex_config
   = ([CallMint ex_owner (metadataJson ''https://example.com/item.png'' ex_traits),
       WaitForReceipt ''0xabc''],
      Inl JsTypeError)"
  by code_simp

section \<open>Point queries\<close>

text \<open>
  C9. Whenever the owner lookup of a validated token id fails, getItem and verifyOwner
  both raise the dedicated \<open>TokenNotFound\<close> error ('Token ID ... does not exist or has
  been burned'), whatever error the lookup itself raised, and make no further call.
\<close>

theorem token_not_found:
  assumes "validate_token_id tid = Inr (label, n)"
    and "resolve_contract_address w cfg = Inr addr"
    and "c_ownerOf c n = Inl m"
  shows "getItem w c tid cfg = ([CallOwnerOf n], Inl (TokenNotFound label))
       \<and> (\<not> bad_address w wallet \<longrightarrow>
            verifyOwner w c wallet tid cfg = ([CallOwnerOf n], Inl (TokenNotFound label)))"
  using assms by (simp add: getItem_def verifyOwner_def owner_lookup_def)

theorem token_not_found_witness:
  "getItem ex_world ex_contract (TValue ''99'' (Fin 99)) ex_config
     = ([CallOwnerOf (Fin 99)], Inl (TokenNotFound ''99''))
   \<and> verifyOwner ex_world ex_contract (Some ex_owner) (TValue ''99'' (Fin 99)) ex_config
     = ([CallOwnerOf (Fin 99)], Inl (TokenNotFound ''99''))"
proof -
  have 1: "validate_token_id (TValue ''99'' (Fin 99)) = Inr (''99'', Fin 99)" by simp
  have 2: "resolve_contract_address ex_world ex_config = Inr ex_contract_address" by code_simp
  have 3: "c_ownerOf ex_contract (Fin 99) = Inl ''ownerOf: nonexistent token''"
    by (simp add: ex_contract_def)
  have 4: "\<not> bad_address ex_world (Some ex_owner)" by code_simp
  show ?thesis using token_not_found [OF 1 2 3, of "Some ex_owner"] 4 by simp
qed

lemma validate_token_id_rejects:
  "(validate_token_id tid = Inl TokenIdRequired \<or> validate_token_id tid = Inl TokenIdNotANumber)
   = rejected_token_id tid"
  by (cases tid) (auto simp: rejected_token_id_def)

lemma validate_token_id_Inl:
  "validate_token_id tid = Inl e \<Longrightarrow> rejected_token_id tid"
  by (cases tid) (auto simp: rejected_token_id_def split: if_splits)

lemma resolve_contract_address_errors:
  "resolve_contract_address w cfg = Inl e \<Longrightarrow> e = ContractAddressNotProvided \<or> e = InvalidContractAddress"
  by (auto simp: resolve_contract_address_def split: if_splits option.splits sum.splits)

lemma getItem_validation_error:
  "(snd (getItem w c tid cfg) = Inl TokenIdRequired \<or> snd (getItem w c tid cfg) = Inl TokenIdNotANumber)
   = rejected_token_id tid"
proof (cases "validate_token_id tid")
  case (Inl e)
  then show ?thesis
    using validate_token_id_rejects [of tid] validate_token_id_Inl [of tid e]
    by (auto simp: getItem_def io_throw_def)
next
  case (Inr p)
  obtain label n where p: "p = (label, n)" by (cases p)
  have nr: "\<not> rejected_token_id tid"
    using Inr validate_token_id_rejects [of tid] by auto
  show ?thesis
  proof (cases "resolve_contract_address w cfg")
    case (Inl e)
    with Inr p nr resolve_contract_address_errors [OF Inl] show ?thesis
      by (auto simp: getItem_def io_throw_def)
  next
    case (Inr a)
    with \<open>validate_token_id tid = Inr p\<close> p nr show ?thesis
      by (auto simp: getItem_def owner_lookup_def split: sum.splits prod.splits)
  qed
qed

lemma verifyOwner_validation_error:
  assumes "\<not> bad_address w wallet"
  shows "(snd (verifyOwner w c wallet tid cfg) = Inl TokenIdRequired
          \<or> snd (verifyOwner w c wallet tid cfg) = Inl TokenIdNotANumber)
   = rejected_token_id tid"
proof (cases "validate_token_id tid")
  case (Inl e)
  then show ?thesis
    using assms validate_token_id_rejects [of tid] validate_token_id_Inl [of tid e]
    by (auto simp: verifyOwner_def io_throw_def)
next
  case (Inr p)
  obtain label n where p: "p = (label, n)" by (cases p)
  have nr: "\<not> rejected_token_id tid"
    using Inr validate_token_id_rejects [of tid] by auto
  show ?thesis
  proof (cases "resolve_contract_address w cfg")
    case (Inl e)
    with Inr p nr assms resolve_contract_address_errors [OF Inl] show ?thesis
      by (auto simp: verifyOwner_def io_throw_def)
  next
    case (Inr a)
    with \<open>validate_token_id tid = Inr p\<close> p nr assms show ?thesis
      by (auto simp: verifyOwner_def owner_lookup_def io_ret_def split: sum.splits prod.splits)
  qed
qed

text \<open>
  C10. getItem and verifyOwner (given a well-formed wallet address) raise one of the two
  token id validation errors exactly when the token id is null, undefined, converts to
  NaN or is negative. Zero and 1.5 are not refused, and every token id that is not
  refused is passed to the contract's \<open>ownerOf\<close> as the first ledger call.
\<close>

theorem token_id_validation:
  "((snd (getItem w c tid cfg) = Inl TokenIdRequired \<or> snd (getItem w c tid cfg) = Inl TokenIdNotANumber)
      = rejected_token_id tid)
 \<and> (\<not> bad_address w wallet \<longrightarrow>
      ((snd (verifyOwner w c wallet tid cfg) = Inl TokenIdRequired
        \<or> snd (verifyOwner w c wallet tid cfg) = Inl TokenIdNotANumber)
       = rejected_token_id tid))
 \<and> \<not> rejected_token_id (TValue label (Fin 0))
 \<and> \<not> rejected_token_id (TValue label (Fin (3 / 2)))
 \<and> (\<not> rejected_token_id (TValue label n) \<and> resolve_contract_address w cfg = Inr addr \<longrightarrow>
      (\<exists>rest. fst (getItem w c (TValue label n) cfg) = CallOwnerOf n # rest)
      \<and> (\<not> bad_address w wallet \<longrightarrow>
           fst (verifyOwner w c wallet (TValue label n) cfg) = [CallOwnerOf n]))"
proof (intro conjI impI)
  show "(snd (getItem w c tid cfg) = Inl TokenIdRequired \<or> snd (getItem w c tid cfg) = Inl TokenIdNotANumber)
      = rejected_token_id tid"
    by (rule getItem_validation_error)
next
  assume "\<not> bad_address w wallet"
  then show "(snd (verifyOwner w c wallet tid cfg) = Inl TokenIdRequired
        \<or> snd (verifyOwner w c wallet tid cfg) = Inl TokenIdNotANumber)
       = rejected_token_id tid"
    by (rule verifyOwner_validation_error)
next
  show "\<not> rejected_token_id (TValue label (Fin 0))"
    by (simp add: rejected_token_id_def)
  show "\<not> rejected_token_id (TValue label (Fin (3 / 2)))"
    by (simp add: rejected_token_id_def)
next
  assume a: "\<not> rejected_token_id (TValue label n) \<and> resolve_contract_address w cfg = Inr addr"
  then show "\<exists>rest. fst (getItem w c (TValue label n) cfg) = CallOwnerOf n # rest"
    by (simp add: rejected_token_id_def getItem_def owner_lookup_def split: sum.split prod.split)
  assume "\<not> bad_address w wallet"
  with a show "fst (verifyOwner w c wallet (TValue label n) cfg) = [CallOwnerOf n]"
    by (simp add: rejected_token_id_def verifyOwner_def owner_lookup_def io_ret_def split: sum.split)
qed

theorem token_id_validation_witness:
  "fst (getItem ex_world ex_contract (TValue ''1.5'' (Fin (3 / 2))) ex_config) = [CallOwnerOf (Fin (3 / 2))]
 \<and> fst (verifyOwner ex_world ex_contract (Some ex_owner) (TValue ''0'' (Fin 0)) ex_config) = [CallOwnerOf (Fin 0)]
 \<and> snd (getItem ex_world ex_contract (TValue ''-1'' (Fin (- 1))) ex_config) = Inl TokenIdNotANumber
 \<and> snd (verifyOwner ex_world ex_contract (Some ex_owner) (TValue ''abc'' NaN) ex_config) = Inl TokenIdNotANumber"
proof -
  have a: "\<not> bad_address ex_world (Some ex_owner)" by code_simp
  have r: "resolve_contract_address ex_world ex_config = Inr ex_contract_address" by code_simp
  have o1: "c_ownerOf ex_contract (Fin (3 / 2)) = Inl ''ownerOf: nonexistent token''"
    by (simp add: ex_contract_def)
  have 1: "fst (getItem ex_world ex_contract (TValue ''1.5'' (Fin (3 / 2))) ex_config)
           = [CallOwnerOf (Fin (3 / 2))]"
    using token_id_validation [of ex_world ex_contract "TValue ''1.5'' (Fin (3 / 2))" ex_config
        "Some ex_owner" "''1.5''" "Fin (3 / 2)" ex_contract_address] r o1
    by (auto simp: getItem_def owner_lookup_def)
  have 2: "fst (verifyOwner ex_world ex_contract (Some ex_owner) (TValue ''0'' (Fin 0)) ex_config)
           = [CallOwnerOf (Fin 0)]"
    using token_id_validation [of ex_world ex_contract "TValue ''0'' (Fin 0)" ex_config
        "Some ex_owner" "''0''" "Fin 0" ex_contract_address] r a
    by simp
  have 3: "snd (getItem ex_world ex_contract (TValue ''-1'' (Fin (- 1))) ex_config) = Inl TokenIdNotANumber"
    using token_id_validation [of ex_world ex_contract "TValue ''-1'' (Fin (- 1))" ex_config
        "Some ex_owner" "''0''" "Fin 0" ex_contract_address]
    by (simp add: rejected_token_id_def getItem_def io_throw_def)
  have 4: "snd (verifyOwner ex_world ex_contract (Some ex_owner) (TValue ''abc'' NaN) ex_config)
           = Inl TokenIdNotANumber"
    using token_id_validation [of ex_world ex_contract "TValue ''abc'' NaN" ex_config
        "Some ex_owner" "''0''" "Fin 0" ex_contract_address] a
    by (simp add: rejected_token_id_def verifyOwner_def io_throw_def)
  from 1 2 3 4 show ?thesis by simp
qed



section \<open>Metadata decoding\<close>



section \<open>Discovery of the tokens an address holds\<close>

lemma indexed_ids_first_failure:
  assumes "\<forall>j \<in> set pre. \<exists>tok. c_tokenOfOwnerByIndex c a j = Inr tok"
    and "c_tokenOfOwnerByIndex c a k = Inl m"
  shows "indexed_ids c a (pre @ k # post) acc = (map (CallTokenOfOwnerByIndex a) (pre @ [k]), [])"
  using assms
proof (induction pre arbitrary: acc)
  case Nil
  then show ?case by simp
next
  case (Cons j pre)
  then obtain tok where "c_tokenOfOwnerByIndex c a j = Inr tok" by auto
  with Cons show ?case by simp
qed

lemma method1_first_failure:
  assumes "c_balanceOf c a = Inr n" and "k < n"
    and "c_tokenOfOwnerByIndex c a k = Inl m"
    and "\<forall>j<k. \<exists>tok. c_tokenOfOwnerByIndex c a j = Inr tok"
  shows "method1 c a = (CallBalanceOf a # map (CallTokenOfOwnerByIndex a) [0..<Suc k], Some [])"
proof -
  have "[0..<n] = [0..<k] @ k # [Suc k..<n]"
    using assms(2) by (metis less_imp_add_positive upt_add_eq_append upt_conv_Cons zero_le le_add1 add.commute plus_nat.add_0)
  moreover have "\<forall>j \<in> set [0..<k]. \<exists>tok. c_tokenOfOwnerByIndex c a j = Inr tok"
    using assms(4) by simp
  ultimately have "indexed_ids c a [0..<n] [] = (map (CallTokenOfOwnerByIndex a) ([0..<k] @ [k]), [])"
    using indexed_ids_first_failure [OF _ assms(3)] by metis
  with assms(1,2) show ?thesis by (simp add: method1_def)
qed

text \<open>
  C4. When the balance read succeeds and a per-index read fails, at index \<open>k\<close> after
  the reads before it succeeded, retrieve makes exactly those calls, discards the token
  ids collected so far, and what it returns is what the scan strategy yields: the scan's
  calls follow in the trace and the result is the scan's result.
\<close>

theorem indexed_failure_falls_back_to_scan:
  assumes "\<not> bad_address w (Some a)"
    and "resolve_contract_address w cfg = Inr addr"
    and "c_balanceOf c a = Inr n" and "k < n"
    and "c_tokenOfOwnerByIndex c a k = Inl m"
    and "\<forall>j<k. \<exists>tok. c_tokenOfOwnerByIndex c a j = Inr tok"
  shows "retrieve w c (Some a) cfg
         = (CallBalanceOf a # map (CallTokenOfOwnerByIndex a) [0..<Suc k] @ fst (scan_result w c a),
            snd (scan_result w c a))"
  using assms(1,2) method1_first_failure [OF assms(3-6)]
  by (simp add: retrieve_def)

text \<open>The theorem at work: a balance of three, the second of three index reads fails.\<close>

theorem indexed_failure_falls_back_to_scan_witness:
  "snd (retrieve ex_world
       (ex_contract\<lparr>c_balanceOf := (\<lambda>a. Inr 3),
                    c_tokenOfOwnerByIndex := (\<lambda>a i. if i = 0 then Inr 2 else Inl ''timeout'')\<rparr>)
       (Some ex_owner) ex_config)
   = Inr [Item 2 (JObj [(''raw'', JStr ''not-json-not-uri'')]) (JObj []) (JStr ''Item #2'') (JStr []) (JStr []),
          Item 4 (JObj [(''uri'', JStr ''https://example.com/4.json'')]) (JObj []) (JStr ''Item #4'')
            (JStr []) (JStr [])]"
proof -
  let ?c = "ex_contract\<lparr>c_balanceOf := (\<lambda>a. Inr 3),
                    c_tokenOfOwnerByIndex := (\<lambda>a i. if i = 0 then Inr 2 else Inl ''timeout'')\<rparr>"
  have 1: "\<not> bad_address ex_world (Some ex_owner)" by code_simp
  have 2: "resolve_contract_address ex_world ex_config = Inr ex_contract_address" by code_simp
  have 3: "c_balanceOf ?c ex_owner = Inr 3" by simp
  have 4: "(1::nat) < 3" by simp
  have 5: "c_tokenOfOwnerByIndex ?c ex_owner 1 = Inl ''timeout''" by simp
  have 6: "\<forall>j<1. \<exists>tok. c_tokenOfOwnerByIndex ?c ex_owner j = Inr tok" by simp
  have 7: "snd (scan_result ex_world ?c ex_owner)
   = Inr [Item 2 (JObj [(''raw'', JStr ''not-json-not-uri'')]) (JObj []) (JStr ''Item #2'') (JStr []) (JStr []),
          Item 4 (JObj [(''uri'', JStr ''https://example.com/4.json'')]) (JObj []) (JStr ''Item #4'')
            (JStr []) (JStr [])]"
    by code_simp
  show ?thesis
    using indexed_failure_falls_back_to_scan [OF 1 2 3 4 5 6] 7 by simp
qed






section \<open>JSON.parse inverts JSON.stringify\<close>

subsection \<open>Decimal numerals\<close>











lemma follows_skip_ws: "follows rest \<Longrightarrow> skip_ws rest = rest"
  by (cases rest) (auto simp: follows_def skip_ws_def is_ws_def)




subsection \<open>String literals\<close>







subsection \<open>Values\<close>
















section \<open>The metadata round trip\<close>

lemma submitted_metadata_append [simp]:
  "submitted_metadata (a @ b) = submitted_metadata a @ submitted_metadata b"
  by (induction a) (simp_all add: submitted_metadata_def split: option.split)

lemma submitted_metadata_simps [simp]:
  "submitted_metadata [] = []"
  "submitted_metadata (FetchHead u # t) = submitted_metadata t"
  "submitted_metadata (CallMint d j # t) = j # submitted_metadata t"
  "submitted_metadata (CallSafeMint d j # t) = j # submitted_metadata t"
  "submitted_metadata (CallMintWithMetadata d j # t) = j # submitted_metadata t"
  "submitted_metadata (WaitForReceipt h # t) = submitted_metadata t"
  "submitted_metadata (CallTotalSupply # t) = submitted_metadata t"
  by (simp_all add: submitted_metadata_def)














end
